theory Spec2Isabelle
  imports Complex_Main "HOL-Library.Sublist" "HOL-Library.AList"
begin

section \<open>Values of the program\<close>

text \<open>
  A Python \<open>str\<close> is represented by the bytes of its UTF-8 encoding, as a \<^typ>\<open>string\<close>.
  The keywords of the heuristics are ASCII, and UTF-8 is self-synchronising, so the
  substring test \<^verbatim>\<open>k in name\<close> of Python is \<^const>\<open>sublist\<close> on this representation.
  A \<open>bytes\<close> value is a \<^typ>\<open>string\<close> as well (one \<^typ>\<open>char\<close> per byte).

  The confidences are the decimal literals of the source, taken at their exact value
  (\<^typ>\<open>rat\<close>). The program only stores and returns them; it never does arithmetic on them.
  The \<open>float\<close> a literal denotes, and the sum of floats, are \<open>double\<close> and \<open>float_sum\<close> below.
\<close>

datatype pyval = PyNone | PyStr string | PyInt int | PyList "pyval list"

type_synonym dict = "(string \<times> pyval) list"

text \<open>
  The exceptions the collaborators of the program raise (the \<open>database\<close> and \<open>schemas\<close>
  modules, the store, the upload streams). All of them are instances of \<open>Exception\<close>, the
  class the handlers of the program catch; the argument is \<^verbatim>\<open>str(e)\<close>.
  \<open>Exception m\<close> stands for an instance of any class other than the two named ones.
\<close>

datatype exception = ImportError string | IndexError string | Exception string

fun str :: "exception \<Rightarrow> string" where
  "str (ImportError m) = m"
| "str (IndexError m) = m"
| "str (Exception m) = m"

text \<open>What an endpoint raises: the \<open>HTTPException\<close> of the program, or an exception nobody caught.\<close>

datatype raised = HTTPException nat string | Unhandled exception

record prediction =
  label :: string
  confidence :: rat

record prediction_response =
  module :: string
  predictions :: "prediction list"
  meta :: dict

text \<open>
  An \<open>UploadFile\<close>: \<open>filename\<close> is a \<open>str\<close>, as the heuristics declare their argument;
  \<open>content_type\<close> may be \<open>None\<close>; \<open>read\<close> is what \<^verbatim>\<open>await f.read()\<close> gives, the bytes of
  the upload or an exception.
\<close>

record upload_file =
  filename :: string
  content_type :: "string option"
  read :: "exception + string"

fun optional_str :: "string option \<Rightarrow> pyval" where
  "optional_str None = PyNone"
| "optional_str (Some s) = PyStr s"

subsection \<open>Strings\<close>

text \<open>
  \<^verbatim>\<open>s[:n]\<close> keeps the first \<open>n\<close> characters. In UTF-8 a character is a lead byte followed by
  continuation bytes (\<open>10xxxxxx\<close>).
\<close>

definition is_continuation :: "char \<Rightarrow> bool" where
  "is_continuation c = (digit7 c \<and> \<not> digit6 c)"

fun take_chars :: "nat \<Rightarrow> string \<Rightarrow> string" where
  "take_chars n [] = []"
| "take_chars n (c # cs) =
     (if is_continuation c then c # take_chars n cs
      else (case n of 0 \<Rightarrow> [] | Suc m \<Rightarrow> c # take_chars m cs))"

text \<open>
  \<^verbatim>\<open>str.lower\<close> is Python's (the Unicode case mapping); the heuristics take it as the
  parameter \<open>lower\<close>, and everything proved about them holds for every such function.
  On ASCII strings it is \<open>ascii_lower\<close>, which the concrete examples use.
\<close>

definition lower_char :: "char \<Rightarrow> char" where
  \<comment> \<open>\<open>A\<close> .. \<open>Z\<close> are 65 .. 90; the lower-case letter is 32 higher, which sets bit 5.\<close>
  "lower_char c =
     (let n = (of_char c :: nat) in
      if 65 \<le> n \<and> n \<le> 90
      then Char (digit0 c) (digit1 c) (digit2 c) (digit3 c) (digit4 c) True (digit6 c) (digit7 c)
      else c)"

definition ascii_lower :: "string \<Rightarrow> string" where
  "ascii_lower s = map lower_char s"

subsection \<open>Floating-point numbers\<close>

text \<open>
  A Python \<open>float\<close> is an IEEE 754 binary64 number: 53 significant bits, and every literal
  and every result of \<open>+\<close> is rounded to the nearest such number, a tie going to the even
  significand. The numbers are modelled by their exact values. For \<open>x\<close> with
  \<open>2^e \<le> \<bar>x\<bar> < 2^(e+1)\<close> the binary64 numbers around \<open>x\<close> are the multiples of \<open>2^(e-52)\<close>;
  \<open>binade\<close> searches \<open>e\<close>, in at most 1100 steps, which covers the normal range of binary64
  (overflow and subnormal numbers are outside the model; the values of the program lie
  between 0.02 and 1).
\<close>

definition round_even :: "rat \<Rightarrow> int" where
  "round_even q =
     (let n = \<lfloor>q\<rfloor>; r = q - of_int n in
      if r < 1 / 2 then n else if 1 / 2 < r then n + 1 else if even n then n else n + 1)"

fun binade :: "nat \<Rightarrow> rat \<Rightarrow> int" where
  "binade n x =
     (if n = 0 then 0
      else if x < 1 then binade (n - 1) (2 * x) - 1
      else if 2 \<le> x then binade (n - 1) (x / 2) + 1
      else 0)"

declare binade.simps [simp del]

definition pow2 :: "int \<Rightarrow> rat" where
  "pow2 k = (if 0 \<le> k then 2 ^ nat k else 1 / 2 ^ nat (- k))"

definition double :: "rat \<Rightarrow> rat" where
  "double x =
     (if x = 0 then 0
      else (let ulp = pow2 (binade 1100 \<bar>x\<bar> - 52)
            in sgn x * of_int (round_even (\<bar>x\<bar> / ulp)) * ulp))"

text \<open>
  The sum of a list of literals as Python adds them, \<^verbatim>\<open>c1 + c2 + c3\<close> from left to right
  (or \<^verbatim>\<open>0 + c1 + c2 + c3\<close>, which is the same): each literal is rounded, and each sum.
\<close>

definition float_sum :: "rat list \<Rightarrow> rat" where
  "float_sum xs = foldl (\<lambda>a x. double (a + x)) 0 (map double xs)"

section \<open>Utility heuristics (mock AI)\<close>

definition mock_classifier_labels :: "(string \<Rightarrow> string) \<Rightarrow> string \<Rightarrow> prediction list" where
  "mock_classifier_labels lower fname =
     (let name = lower fname in
      if list_ex (\<lambda>k. sublist k name) [''cow'', ''cattle'', ''bovine''] then
        [\<lparr>label = ''Cow'', confidence = 0.92\<rparr>,
         \<lparr>label = ''Buffalo'', confidence = 0.05\<rparr>,
         \<lparr>label = ''Yak'', confidence = 0.03\<rparr>]
      else if list_ex (\<lambda>k. sublist k name) [''dog'', ''canine''] then
        [\<lparr>label = ''Dog'', confidence = 0.90\<rparr>,
         \<lparr>label = ''Wolf'', confidence = 0.06\<rparr>,
         \<lparr>label = ''Fox'', confidence = 0.04\<rparr>]
      else if list_ex (\<lambda>k. sublist k name) [''cat'', ''feline''] then
        [\<lparr>label = ''Cat'', confidence = 0.91\<rparr>,
         \<lparr>label = ''Lynx'', confidence = 0.05\<rparr>,
         \<lparr>label = ''Puma'', confidence = 0.04\<rparr>]
      else
        [\<lparr>label = ''Unknown Animal'', confidence = 0.60\<rparr>,
         \<lparr>label = ''Dog'', confidence = 0.22\<rparr>,
         \<lparr>label = ''Cat'', confidence = 0.18\<rparr>])"

definition mock_snake_assessment :: "(string \<Rightarrow> string) \<Rightarrow> string \<Rightarrow> prediction list" where
  "mock_snake_assessment lower fname =
     (let name = lower fname;
          (venom, lbl) =
             (if list_ex (\<lambda>k. sublist k name) [''cobra'', ''viper'', ''krait'']
              then (True, ''Venomous Snake'') else (False, ''Non-venomous Snake''))
      in [\<lparr>label = lbl, confidence = (if venom then 0.88 else 0.82)\<rparr>,
          \<lparr>label = ''Rat Snake'', confidence = 0.08\<rparr>,
          \<lparr>label = ''Other'', confidence = 0.04\<rparr>])"

definition mock_emotion :: "(string \<Rightarrow> string) \<Rightarrow> string \<Rightarrow> prediction list" where
  "mock_emotion lower fname =
     (let name = lower fname in
      if list_ex (\<lambda>k. sublist k name) [''happy'', ''smile''] then
        [\<lparr>label = ''Happy'', confidence = 0.93\<rparr>,
         \<lparr>label = ''Relaxed'', confidence = 0.05\<rparr>,
         \<lparr>label = ''Alert'', confidence = 0.02\<rparr>]
      else if list_ex (\<lambda>k. sublist k name) [''angry'', ''growl'', ''hiss''] then
        [\<lparr>label = ''Agitated'', confidence = 0.88\<rparr>,
         \<lparr>label = ''Alert'', confidence = 0.08\<rparr>,
         \<lparr>label = ''Neutral'', confidence = 0.04\<rparr>]
      else
        [\<lparr>label = ''Neutral'', confidence = 0.70\<rparr>,
         \<lparr>label = ''Curious'', confidence = 0.20\<rparr>,
         \<lparr>label = ''Relaxed'', confidence = 0.10\<rparr>])"

section \<open>Endpoints\<close>

text \<open>
  The \<open>schemas\<close> and \<open>database\<close> modules are imported by the program and are parameters here:
  \<open>AnalysisLog\<close> builds the log entry from its five keyword arguments or raises (validation);
  \<open>create_document\<close> writes an entry to the store, whose state is of type \<open>'db\<close>, and gives
  back the new state with its result or the exception it raised. An absent store is a
  \<open>create_document\<close> that raises.
\<close>

type_synonym 'log analysis_log =
  "string \<Rightarrow> string list \<Rightarrow> string option list \<Rightarrow> nat list \<Rightarrow> prediction_response
     \<Rightarrow> exception + 'log"

type_synonym ('log, 'db) create_document =
  "string \<Rightarrow> 'log \<Rightarrow> 'db \<Rightarrow> (exception + pyval) \<times> 'db"

text \<open>\<^verbatim>\<open>[len(await f.read()) for f in files]\<close>: the files are read in order; the first exception ends it.\<close>

fun read_sizes :: "upload_file list \<Rightarrow> exception + nat list" where
  "read_sizes [] = Inr []"
| "read_sizes (f # fs) =
     (case read f of
        Inl e \<Rightarrow> Inl e
      | Inr b \<Rightarrow> (case read_sizes fs of Inl e \<Rightarrow> Inl e | Inr ns \<Rightarrow> Inr (length b # ns)))"

text \<open>
  The body of the \<^verbatim>\<open>try\<close> block of the three endpoints, which differ in the module name only:
  the arguments of \<open>AnalysisLog\<close> are evaluated, the entry is built, and it is written.
\<close>

definition log_analysis ::
  "'log analysis_log \<Rightarrow> ('log, 'db) create_document \<Rightarrow> string \<Rightarrow> upload_file list
     \<Rightarrow> prediction_response \<Rightarrow> 'db \<Rightarrow> (exception + unit) \<times> 'db" where
  "log_analysis AnalysisLog create_document modname files payload db =
     (case read_sizes files of
        Inl e \<Rightarrow> (Inl e, db)
      | Inr sizes \<Rightarrow>
          (case AnalysisLog modname (map filename files) (map content_type files) sizes payload of
             Inl e \<Rightarrow> (Inl e, db)
           | Inr entry \<Rightarrow>
               (case create_document ''analysislog'' entry db of
                  (Inl e, db') \<Rightarrow> (Inl e, db')
                | (Inr _, db') \<Rightarrow> (Inr (), db'))))"

text \<open>
  An endpoint takes the batch and the state of the store, and gives what it returns or
  raises, with the state of the store afterwards. \<^verbatim>\<open>except Exception: pass\<close> drops the
  outcome of the \<^verbatim>\<open>try\<close> block and keeps the state the block left.
\<close>

definition classify ::
  "(string \<Rightarrow> string) \<Rightarrow> 'log analysis_log \<Rightarrow> ('log, 'db) create_document
     \<Rightarrow> upload_file list \<Rightarrow> 'db \<Rightarrow> (raised + prediction_response) \<times> 'db" where
  "classify lower AnalysisLog create_document files db =
     (case files of
        [] \<Rightarrow> (Inl (HTTPException 400 ''No files uploaded''), db)
      | first # _ \<Rightarrow>
          (let preds = mock_classifier_labels lower (filename first);
               m = [(''filename'', PyStr (filename first)),
                    (''content_type'', optional_str (content_type first)),
                    (''files_count'', PyInt (int (length files)))];
               payload = \<lparr>module = ''classifier'', predictions = preds, meta = m\<rparr>;
               (_, db') = log_analysis AnalysisLog create_document ''classifier'' files payload db
           in (Inr payload, db')))"

definition snake ::
  "(string \<Rightarrow> string) \<Rightarrow> 'log analysis_log \<Rightarrow> ('log, 'db) create_document
     \<Rightarrow> upload_file list \<Rightarrow> 'db \<Rightarrow> (raised + prediction_response) \<times> 'db" where
  "snake lower AnalysisLog create_document files db =
     (case files of
        [] \<Rightarrow> (Inl (HTTPException 400 ''No files uploaded''), db)
      | first # _ \<Rightarrow>
          (let preds = mock_snake_assessment lower (filename first) in
           case preds of
             [] \<Rightarrow> (Inl (Unhandled (IndexError ''list index out of range'')), db)
           | p # _ \<Rightarrow>
               (let venomous = (label p = ''Venomous Snake'');
                    m = [(''filename'', PyStr (filename first)),
                         (''content_type'', optional_str (content_type first)),
                         (''danger'', PyStr (if venomous then ''Dangerous'' else ''Generally Safe'')),
                         (''files_count'', PyInt (int (length files)))];
                    payload = \<lparr>module = ''snake'', predictions = preds, meta = m\<rparr>;
                    (_, db') = log_analysis AnalysisLog create_document ''snake'' files payload db
                in (Inr payload, db'))))"

definition emotion ::
  "(string \<Rightarrow> string) \<Rightarrow> 'log analysis_log \<Rightarrow> ('log, 'db) create_document
     \<Rightarrow> upload_file list \<Rightarrow> 'db \<Rightarrow> (raised + prediction_response) \<times> 'db" where
  "emotion lower AnalysisLog create_document files db =
     (case files of
        [] \<Rightarrow> (Inl (HTTPException 400 ''No files uploaded''), db)
      | first # _ \<Rightarrow>
          (let preds = mock_emotion lower (filename first);
               m = [(''filename'', PyStr (filename first)),
                    (''content_type'', optional_str (content_type first)),
                    (''files_count'', PyInt (int (length files)))];
               payload = \<lparr>module = ''emotion'', predictions = preds, meta = m\<rparr>;
               (_, db') = log_analysis AnalysisLog create_document ''emotion'' files payload db
           in (Inr payload, db')))"

section \<open>The \<open>/test\<close> endpoint\<close>

text \<open>
  What \<open>test_database\<close> reads from outside: the outcome of \<^verbatim>\<open>from database import db\<close>
  (an exception, \<open>None\<close>, or a database object) and the environment variables.
  Of a database object the endpoint uses the attribute \<open>name\<close> (absent, or raising when read,
  or a value) and the method \<open>list_collection_names\<close>.
\<close>

record database =
  name :: "(exception + pyval) option"
  list_collection_names :: "exception + string list"

record environment =
  import_db :: "exception + database option"
  getenv :: "string \<Rightarrow> string option"

text \<open>The marks of the messages: U+2705, U+274C, and U+26A0 U+FE0F, in UTF-8.\<close>

definition check_mark :: string where
  "check_mark = [CHR 0xE2, CHR 0x9C, CHR 0x85]"

definition cross_mark :: string where
  "cross_mark = [CHR 0xE2, CHR 0x9D, CHR 0x8C]"

definition warning_sign :: string where
  "warning_sign = [CHR 0xE2, CHR 0x9A, CHR 0xA0, CHR 0xEF, CHR 0xB8, CHR 0x8F]"

text \<open>Truth value of \<^verbatim>\<open>os.getenv(k)\<close>: set and not empty.\<close>

fun truthy :: "string option \<Rightarrow> bool" where
  "truthy None = False"
| "truthy (Some s) = (s \<noteq> [])"

text \<open>
  The body of the outer \<^verbatim>\<open>try\<close>: the \<open>response\<close> dictionary is updated in place, so what was
  written before an exception stays. \<open>hasattr\<close> gives \<open>False\<close> for an absent attribute and
  lets any other exception through.
\<close>

definition test_database_try :: "environment \<Rightarrow> dict \<Rightarrow> (exception + unit) \<times> dict" where
  "test_database_try env response =
     (case import_db env of
        Inl e \<Rightarrow> (Inl e, response)
      | Inr None \<Rightarrow>
          (Inr (),
           AList.update ''database''
             (PyStr (warning_sign @ ''  Available but not initialized'')) response)
      | Inr (Some db) \<Rightarrow>
          (let r1 = AList.update ''database'' (PyStr (check_mark @ '' Available'')) response;
               r2 = AList.update ''database_url'' (PyStr (check_mark @ '' Configured'')) r1
           in case name db of
                Some (Inl e) \<Rightarrow> (Inl e, r2)
              | attr \<Rightarrow>
                  (let r3 = AList.update ''database_name''
                              (case attr of Some (Inr v) \<Rightarrow> v
                                          | _ \<Rightarrow> PyStr (check_mark @ '' Connected'')) r2;
                       r4 = AList.update ''connection_status'' (PyStr ''Connected'') r3
                   in case list_collection_names db of
                        Inr collections \<Rightarrow>
                          (Inr (),
                           AList.update ''database''
                             (PyStr (check_mark @ '' Connected & Working''))
                             (AList.update ''collections''
                                (PyList (map PyStr (take 10 collections))) r4))
                      | Inl e \<Rightarrow>
                          (Inr (),
                           AList.update ''database''
                             (PyStr (warning_sign @ ''  Connected but Error: ''
                                       @ take_chars 50 (str e))) r4))))"

definition test_database :: "environment \<Rightarrow> exception + dict" where
  "test_database env =
     (let response = [(''backend'', PyStr (check_mark @ '' Running'')),
                      (''database'', PyStr (cross_mark @ '' Not Available'')),
                      (''database_url'', PyNone),
                      (''database_name'', PyNone),
                      (''connection_status'', PyStr ''Not Connected''),
                      (''collections'', PyList [])];
          response =
            (case test_database_try env response of
               (Inr _, r) \<Rightarrow> r
             | (Inl (ImportError _), r) \<Rightarrow>
                 AList.update ''database''
                   (PyStr (cross_mark @ '' Database module not found (run enable-database first)'')) r
             | (Inl e, r) \<Rightarrow>
                 AList.update ''database''
                   (PyStr (cross_mark @ '' Error: '' @ take_chars 50 (str e))) r);
          response = AList.update ''database_url''
                       (PyStr (if truthy (getenv env ''DATABASE_URL'')
                               then check_mark @ '' Set'' else cross_mark @ '' Not Set'')) response;
          response = AList.update ''database_name''
                       (PyStr (if truthy (getenv env ''DATABASE_NAME'')
                               then check_mark @ '' Set'' else cross_mark @ '' Not Set'')) response
      in Inr response)"

section \<open>Properties\<close>

text \<open>
  A ranked prediction list: not empty, every confidence in \<open>[0, 1]\<close>, confidences in
  descending order.
\<close>

definition ranked :: "prediction list \<Rightarrow> bool" where
  "ranked ps =
     (ps \<noteq> [] \<and> list_all (\<lambda>p. 0 \<le> confidence p \<and> confidence p \<le> 1) ps
      \<and> sorted_wrt (\<lambda>a b. b \<le> a) (map confidence ps))"

subsection \<open>Concrete collaborators for the examples\<close>

text \<open>
  Stand-ins for the two imported functions, used where a statement is evaluated on a
  concrete request: a constructor that accepts every entry and one that rejects every
  entry, a store that counts the entries written to it and a store that always raises.
\<close>

type_synonym entry = "string \<times> string list \<times> string option list \<times> nat list \<times> prediction_response"

definition accepting_log :: "entry analysis_log" where
  "accepting_log m fns cts szs r = Inr (m, fns, cts, szs, r)"

definition rejecting_log :: "entry analysis_log" where
  "rejecting_log m fns cts szs r = Inl (Exception ''validation error'')"

definition counting_store :: "(entry, nat) create_document" where
  "counting_store c e n = (Inr (PyStr ''id''), Suc n)"

definition failing_store :: "(entry, nat) create_document" where
  "failing_store c e n = (Inl (Exception ''store not available''), n)"

text \<open>Uploads for the examples; reading \<open>random_upload\<close> raises.\<close>

definition cow_upload :: upload_file where
  "cow_upload =
     \<lparr>filename = ''My_COW.JPG'', content_type = Some ''image/jpeg'', read = Inr ''abc''\<rparr>"

definition random_upload :: upload_file where
  "random_upload =
     \<lparr>filename = ''random.jpg'', content_type = None, read = Inl (Exception ''stream closed'')\<rparr>"

definition cobra_upload :: upload_file where
  "cobra_upload =
     \<lparr>filename = ''King-Cobra.png'', content_type = Some ''image/png'', read = Inr ''abc''\<rparr>"

definition rat_upload :: upload_file where
  "rat_upload = \<lparr>filename = ''rat.png'', content_type = None, read = Inr []\<rparr>"

subsection \<open>What the endpoints answer to a batch that is not empty\<close>

lemma classify_response:
  "fst (classify lower AL cd (f # fs) db) =
     Inr \<lparr>module = ''classifier'',
          predictions = mock_classifier_labels lower (filename f),
          meta = [(''filename'', PyStr (filename f)),
                  (''content_type'', optional_str (content_type f)),
                  (''files_count'', PyInt (int (length (f # fs))))]\<rparr>"
  by (simp add: classify_def Let_def split: prod.splits)

lemma snake_response:
  "fst (snake lower AL cd (f # fs) db) =
     Inr \<lparr>module = ''snake'',
          predictions = mock_snake_assessment lower (filename f),
          meta = [(''filename'', PyStr (filename f)),
                  (''content_type'', optional_str (content_type f)),
                  (''danger'',
                   PyStr (if list_ex (\<lambda>k. sublist k (lower (filename f)))
                                [''cobra'', ''viper'', ''krait'']
                          then ''Dangerous'' else ''Generally Safe'')),
                  (''files_count'', PyInt (int (length (f # fs))))]\<rparr>"
  by (simp add: snake_def mock_snake_assessment_def Let_def split: prod.splits)

lemma emotion_response:
  "fst (emotion lower AL cd (f # fs) db) =
     Inr \<lparr>module = ''emotion'',
          predictions = mock_emotion lower (filename f),
          meta = [(''filename'', PyStr (filename f)),
                  (''content_type'', optional_str (content_type f)),
                  (''files_count'', PyInt (int (length (f # fs))))]\<rparr>"
  by (simp add: emotion_def Let_def split: prod.splits)

subsection \<open>The reference prediction modules\<close>

lemma ranked3:
  "ranked [\<lparr>label = a, confidence = x\<rparr>, \<lparr>label = b, confidence = y\<rparr>,
           \<lparr>label = c, confidence = z\<rparr>]
     = (0 \<le> z \<and> z \<le> y \<and> y \<le> x \<and> x \<le> 1)"
  by (auto simp: ranked_def)

lemma ranked_classifier: "ranked (mock_classifier_labels lower fname)"
  by (simp add: mock_classifier_labels_def Let_def ranked3)

lemma ranked_snake: "ranked (mock_snake_assessment lower fname)"
  by (simp add: mock_snake_assessment_def Let_def ranked3)

lemma ranked_emotion: "ranked (mock_emotion lower fname)"
  by (simp add: mock_emotion_def Let_def ranked3)

text \<open>
  Evaluation of the floating-point model. As a check of \<open>double\<close> against binary64:
  \<open>2^53 + 1\<close> lies half-way between two numbers and goes to the even one, \<open>2^53 + 3\<close> goes
  up, and \<open>1/3\<close> and \<open>0.94\<close> get the significands Python shows for them.
\<close>

lemma floor_rat_numeral: "\<lfloor>numeral a / numeral b :: rat\<rfloor> = numeral a div numeral b"
  by (metis floor_divide_of_int_eq of_int_numeral)

lemmas float_eval = float_sum_def double_def pow2_def round_even_def binade.simps Let_def
  floor_rat_numeral

lemma double_examples:
  "double (- 3) = - 3"
  "double (2 ^ 53 + 1) = 2 ^ 53"
  "double (2 ^ 53 + 3) = 2 ^ 53 + 4"
  "double (1 / 3) = 6004799503160661 / 2 ^ 54"
  "double 0.94 = 8466767299456532 / 2 ^ 53"
  by (simp_all add: float_eval)

lemma float_sum_classifier:
  "length (mock_classifier_labels lower fname) = 3
   \<and> float_sum (map confidence (mock_classifier_labels lower fname)) = 1"
  by (simp add: mock_classifier_labels_def float_eval)

lemma float_sum_snake:
  "length (mock_snake_assessment lower fname) = 3
   \<and> float_sum (map confidence (mock_snake_assessment lower fname)) =
       (if list_ex (\<lambda>k. sublist k (lower fname)) [''cobra'', ''viper'', ''krait'']
        then 1 else double 0.94)"
  by (simp add: mock_snake_assessment_def float_eval)

lemma float_sum_emotion:
  "length (mock_emotion lower fname) = 3
   \<and> float_sum (map confidence (mock_emotion lower fname)) =
       (if list_ex (\<lambda>k. sublist k (lower fname))
             [''happy'', ''smile'', ''angry'', ''growl'', ''hiss'']
        then 1 else 1 - 1 / 2 ^ 53)"
  by (simp add: mock_emotion_def float_eval)

lemma float_sum_near_one:
  "double 0.94 \<le> 1 - 1 / 2 ^ 53" "double 0.94 < 1" "1 - 1 / 2 ^ 53 < (1::rat)"
  unfolding double_examples by simp_all

text \<open>
  C3. For every file name, the predictions of each of the three reference modules
  (classifier, snake, emotion) are a non-empty list, every confidence lies in \<open>[0, 1]\<close>,
  and the list is in descending order of confidence. The order and the bounds of the
  decimal literals are those of the floating-point numbers nearest to them.
\<close>

theorem mock_predictions_ranked:
  "ranked (mock_classifier_labels lower fname)
   \<and> ranked (mock_snake_assessment lower fname)
   \<and> ranked (mock_emotion lower fname)"
  by (intro conjI ranked_classifier ranked_snake ranked_emotion)

text \<open>
  C4, as stated: each module returns exactly 3 predictions whose confidences sum to a
  value that is near 1.0 and is not 1.0. It fails for the classifier on \<open>cow.jpg\<close>: in
  double precision \<^verbatim>\<open>0.92 + 0.05 + 0.03\<close> is exactly 1.0.
\<close>

theorem mock_float_sum_one_counterexample:
  "\<not> (length (mock_classifier_labels ascii_lower ''cow.jpg'') = 3
      \<and> float_sum (map confidence (mock_classifier_labels ascii_lower ''cow.jpg'')) \<noteq> 1)"
  by (simp add: mock_classifier_labels_def ascii_lower_def lower_char_def sublist_code
      float_eval)

text \<open>
  C4, amended: for every file name each module returns exactly 3 predictions, and the sum
  of their confidences, added from left to right in double precision, is near 1.0: it
  lies between 0.94 and 1.0. It is exactly 1.0 for every result of the classifier, for
  the venomous result of the snake module and for the results of the emotion module that
  a keyword selects; it is not 1.0 for the non-venomous result of the snake module, where
  it is the float 0.94, and for the default result of the emotion module, where it is
  \<open>1 - 2^-53\<close> (Python prints 0.9999999999999999).
\<close>

theorem mock_three_predictions_float_sum:
  "length (mock_classifier_labels lower fname) = 3
   \<and> float_sum (map confidence (mock_classifier_labels lower fname)) = 1
   \<and> length (mock_snake_assessment lower fname) = 3
   \<and> float_sum (map confidence (mock_snake_assessment lower fname)) =
       (if list_ex (\<lambda>k. sublist k (lower fname)) [''cobra'', ''viper'', ''krait'']
        then 1 else double 0.94)
   \<and> length (mock_emotion lower fname) = 3
   \<and> float_sum (map confidence (mock_emotion lower fname)) =
       (if list_ex (\<lambda>k. sublist k (lower fname))
             [''happy'', ''smile'', ''angry'', ''growl'', ''hiss'']
        then 1 else 1 - 1 / 2 ^ 53)
   \<and> list_all (\<lambda>s. double 0.94 \<le> s \<and> s \<le> 1)
        [float_sum (map confidence (mock_classifier_labels lower fname)),
         float_sum (map confidence (mock_snake_assessment lower fname)),
         float_sum (map confidence (mock_emotion lower fname))]
   \<and> double 0.94 < 1 \<and> 1 - 1 / 2 ^ 53 < (1::rat)"
  using float_sum_classifier [of lower fname] float_sum_snake [of lower fname]
    float_sum_emotion [of lower fname] float_sum_near_one
  by auto

subsection \<open>The classify, snake and emotion endpoints\<close>

text \<open>
  The \<^verbatim>\<open>try\<close> block does fail in the model: when the store raises, when the entry is
  rejected, when an upload cannot be read. It writes to the store when nothing fails.
\<close>

lemma log_analysis_examples:
  "log_analysis accepting_log failing_store ''snake'' [cobra_upload, rat_upload] p 0
     = (Inl (Exception ''store not available''), 0)"
  "log_analysis rejecting_log counting_store ''snake'' [cobra_upload, rat_upload] p 0
     = (Inl (Exception ''validation error''), 0)"
  "log_analysis accepting_log counting_store ''snake'' [cobra_upload, random_upload] p 0
     = (Inl (Exception ''stream closed''), 0)"
  "log_analysis accepting_log counting_store ''snake'' [cobra_upload, rat_upload] p 0
     = (Inr (), 1)"
  by (simp_all add: log_analysis_def accepting_log_def rejecting_log_def counting_store_def
      failing_store_def cobra_upload_def rat_upload_def random_upload_def)

text \<open>
  C1. For a batch that is not empty, a failure of the audit-log write does not change the
  response of classify, snake or emotion. Whatever the constructor of the entry
  (\<open>AL\<close>, \<open>AL'\<close>), the store (\<open>cd\<close>, \<open>cd'\<close> and its state) and the outcome \<open>r g\<close> of reading
  each upload \<open>g\<close> are, failing or not, the endpoint returns the same payload, and it
  returns (status 200) rather than raises.
\<close>

theorem audit_failure_keeps_response:
  "fst (classify lower AL cd (map (\<lambda>g. g\<lparr>read := r g\<rparr>) (f # fs)) db)
     = fst (classify lower AL' cd' (f # fs) db')
   \<and> fst (snake lower AL cd (map (\<lambda>g. g\<lparr>read := r g\<rparr>) (f # fs)) db)
     = fst (snake lower AL' cd' (f # fs) db')
   \<and> fst (emotion lower AL cd (map (\<lambda>g. g\<lparr>read := r g\<rparr>) (f # fs)) db)
     = fst (emotion lower AL' cd' (f # fs) db')
   \<and> (\<exists>p. fst (classify lower AL' cd' (f # fs) db') = Inr p)
   \<and> (\<exists>p. fst (snake lower AL' cd' (f # fs) db') = Inr p)
   \<and> (\<exists>p. fst (emotion lower AL' cd' (f # fs) db') = Inr p)"
  by (simp add: classify_response snake_response emotion_response)


text \<open>
  Matching is case-insensitive: under ASCII lower-casing, a name that contains a keyword in
  any mix of cases has a lower-cased name that contains the lower-cased keyword.
\<close>

lemma ascii_lower_sublist:
  "sublist k s \<Longrightarrow> sublist (ascii_lower k) (ascii_lower s)"
proof -
  assume "sublist k s"
  then obtain ps ss where "s = ps @ k @ ss"
    by (auto simp: sublist_def)
  then have "ascii_lower s = ascii_lower ps @ ascii_lower k @ ascii_lower ss"
    by (simp add: ascii_lower_def)
  then show ?thesis
    by (simp add: sublist_appendI)
qed

text \<open>
  C5. When the lower-cased name of the first file contains \<open>cow\<close>, the first prediction of
  the response of classify is \<open>Cow\<close> with confidence 0.92.
\<close>

theorem classify_cow_top:
  assumes "sublist ''cow'' (lower (filename f))"
  shows "\<exists>p rest. fst (classify lower AL cd (f # fs) db) = Inr p
            \<and> predictions p = \<lparr>label = ''Cow'', confidence = 0.92\<rparr> # rest"
  using assms by (simp add: classify_response mock_classifier_labels_def)

theorem classify_cow_top_witness:
  "sublist ''cow'' (ascii_lower (filename cow_upload))
   \<and> (\<exists>p rest. fst (classify ascii_lower rejecting_log failing_store
                       [cow_upload, rat_upload] (0::nat)) = Inr p
            \<and> predictions p = \<lparr>label = ''Cow'', confidence = 0.92\<rparr> # rest)"
  using classify_cow_top [where lower = ascii_lower and AL = rejecting_log
      and cd = failing_store and f = cow_upload and fs = "[rat_upload]" and db = "0::nat"]
  by (simp add: cow_upload_def ascii_lower_def lower_char_def sublist_code)

text \<open>
  C6. The response of snake to a batch that is not empty: the label of the first prediction
  is \<open>Venomous Snake\<close> when the lower-cased name of the first file contains \<open>cobra\<close>, \<open>viper\<close>
  or \<open>krait\<close>, and \<open>Non-venomous Snake\<close> when it contains none of them; \<open>meta.danger\<close> is
  \<open>Dangerous\<close> for the first label and \<open>Generally Safe\<close> for the second, so it is one of the
  two values and the top label determines it.
\<close>

theorem snake_top_and_danger:
  "\<exists>p top rest. fst (snake lower AL cd (f # fs) db) = Inr p
     \<and> predictions p = top # rest
     \<and> label top =
         (if list_ex (\<lambda>k. sublist k (lower (filename f))) [''cobra'', ''viper'', ''krait'']
          then ''Venomous Snake'' else ''Non-venomous Snake'')
     \<and> map_of (meta p) ''danger'' =
         Some (PyStr (if label top = ''Venomous Snake''
                      then ''Dangerous'' else ''Generally Safe''))"
  by (simp add: snake_response mock_snake_assessment_def)

text \<open>The two scenarios of the specification, on \<open>King-Cobra.png\<close> and on \<open>rat.png\<close>.\<close>

lemma snake_examples:
  "fst (snake ascii_lower accepting_log counting_store [cobra_upload] 0) =
     Inr \<lparr>module = ''snake'',
          predictions = [\<lparr>label = ''Venomous Snake'', confidence = 0.88\<rparr>,
                         \<lparr>label = ''Rat Snake'', confidence = 0.08\<rparr>,
                         \<lparr>label = ''Other'', confidence = 0.04\<rparr>],
          meta = [(''filename'', PyStr ''King-Cobra.png''),
                  (''content_type'', PyStr ''image/png''),
                  (''danger'', PyStr ''Dangerous''),
                  (''files_count'', PyInt 1)]\<rparr>"
  "fst (snake ascii_lower accepting_log counting_store [rat_upload, cobra_upload] 0) =
     Inr \<lparr>module = ''snake'',
          predictions = [\<lparr>label = ''Non-venomous Snake'', confidence = 0.82\<rparr>,
                         \<lparr>label = ''Rat Snake'', confidence = 0.08\<rparr>,
                         \<lparr>label = ''Other'', confidence = 0.04\<rparr>],
          meta = [(''filename'', PyStr ''rat.png''),
                  (''content_type'', PyNone),
                  (''danger'', PyStr ''Generally Safe''),
                  (''files_count'', PyInt 2)]\<rparr>"
  by (simp_all add: snake_response mock_snake_assessment_def cobra_upload_def rat_upload_def
      ascii_lower_def lower_char_def sublist_code)

text \<open>
  C7. When the lower-cased name of the first file contains none of the emotion keywords
  (\<open>happy\<close>, \<open>smile\<close>, \<open>angry\<close>, \<open>growl\<close>, \<open>hiss\<close>), as for \<open>random.jpg\<close>, the first prediction of
  the response of emotion is \<open>Neutral\<close> with confidence 0.70.
\<close>

theorem emotion_default_top:
  assumes "\<not> list_ex (\<lambda>k. sublist k (lower (filename f)))
               [''happy'', ''smile'', ''angry'', ''growl'', ''hiss'']"
  shows "\<exists>p rest. fst (emotion lower AL cd (f # fs) db) = Inr p
            \<and> predictions p = \<lparr>label = ''Neutral'', confidence = 0.70\<rparr> # rest"
  using assms by (simp add: emotion_response mock_emotion_def)

theorem emotion_default_top_witness:
  "\<not> list_ex (\<lambda>k. sublist k (ascii_lower (filename random_upload)))
        [''happy'', ''smile'', ''angry'', ''growl'', ''hiss'']
   \<and> (\<exists>p rest. fst (emotion ascii_lower accepting_log counting_store
                       [random_upload] (0::nat)) = Inr p
            \<and> predictions p = \<lparr>label = ''Neutral'', confidence = 0.70\<rparr> # rest)"
  using emotion_default_top [where lower = ascii_lower and AL = accepting_log
      and cd = counting_store and f = random_upload and fs = "[]" and db = "0::nat"]
  by (simp add: random_upload_def ascii_lower_def lower_char_def sublist_code)

text \<open>
  C8. Every request with a batch that is not empty succeeds on each of the three endpoints,
  and the \<open>meta\<close> of the response holds the file name and the content type of element 0 of
  the batch (keys \<open>filename\<close>, \<open>content_type\<close>) and the length of the batch (key \<open>files_count\<close>).
\<close>

theorem meta_of_first_file:
  "\<exists>p q r. fst (classify lower AL cd (f # fs) db) = Inr p
     \<and> fst (snake lower AL cd (f # fs) db) = Inr q
     \<and> fst (emotion lower AL cd (f # fs) db) = Inr r
     \<and> list_all (\<lambda>m. map_of m ''filename'' = Some (PyStr (filename ((f # fs) ! 0)))
                   \<and> map_of m ''content_type''
                       = Some (optional_str (content_type ((f # fs) ! 0)))
                   \<and> map_of m ''files_count'' = Some (PyInt (int (length (f # fs)))))
          [meta p, meta q, meta r]"
  by (simp add: classify_response snake_response emotion_response)

text \<open>
  C10. The response of classify, snake and emotion to a batch that is not empty is a
  function of the name of the first file, its content type and the number of files: two
  requests that agree on these get the same response, whatever the other files, the
  bytes of any file, the constructor of the entry, the store and its state are.
\<close>

theorem response_depends_on_first_file:
  assumes "filename f1 = filename f2" and "content_type f1 = content_type f2"
    and "length fs1 = length fs2"
  shows "fst (classify lower AL1 cd1 (f1 # fs1) db1)
           = fst (classify lower AL2 cd2 (f2 # fs2) db2)
   \<and> fst (snake lower AL1 cd1 (f1 # fs1) db1) = fst (snake lower AL2 cd2 (f2 # fs2) db2)
   \<and> fst (emotion lower AL1 cd1 (f1 # fs1) db1)
           = fst (emotion lower AL2 cd2 (f2 # fs2) db2)"
  using assms by (simp add: classify_response snake_response emotion_response)

theorem response_depends_on_first_file_witness:
  "filename cobra_upload = filename (cobra_upload\<lparr>read := Inl (Exception ''stream closed'')\<rparr>)
   \<and> content_type cobra_upload
       = content_type (cobra_upload\<lparr>read := Inl (Exception ''stream closed'')\<rparr>)
   \<and> length [rat_upload] = length [cow_upload]
   \<and> fst (classify ascii_lower accepting_log counting_store [cobra_upload, rat_upload] (0::nat))
       = fst (classify ascii_lower rejecting_log failing_store
                [cobra_upload\<lparr>read := Inl (Exception ''stream closed'')\<rparr>, cow_upload] (7::nat))
   \<and> fst (snake ascii_lower accepting_log counting_store [cobra_upload, rat_upload] (0::nat))
       = fst (snake ascii_lower rejecting_log failing_store
                [cobra_upload\<lparr>read := Inl (Exception ''stream closed'')\<rparr>, cow_upload] (7::nat))
   \<and> fst (emotion ascii_lower accepting_log counting_store [cobra_upload, rat_upload] (0::nat))
       = fst (emotion ascii_lower rejecting_log failing_store
                [cobra_upload\<lparr>read := Inl (Exception ''stream closed'')\<rparr>, cow_upload] (7::nat))"
  using response_depends_on_first_file [where lower = ascii_lower
      and ?f1.0 = cobra_upload
      and ?f2.0 = "cobra_upload\<lparr>read := Inl (Exception ''stream closed'')\<rparr>"
      and ?fs1.0 = "[rat_upload]" and ?fs2.0 = "[cow_upload]"
      and ?AL1.0 = accepting_log and ?cd1.0 = counting_store and ?db1.0 = "0::nat"
      and ?AL2.0 = rejecting_log and ?cd2.0 = failing_store and ?db2.0 = "7::nat"]
  by simp

subsection \<open>The \<open>/test\<close> endpoint\<close>

text \<open>
  The response of \<open>test_database\<close> in each of its five cases: the import raises, \<open>db\<close> is
  \<open>None\<close>, reading \<open>db.name\<close> raises, listing the collections raises, the store answers.
  The two flags \<open>u\<close> and \<open>n\<close> come from the environment variables.
\<close>

lemma test_database_import_fails:
  assumes "import_db env = Inl e"
  shows "\<exists>u n. test_database env =
     Inr [(''backend'', PyStr (check_mark @ '' Running'')),
          (''database'', PyStr (case e of
               ImportError m \<Rightarrow> cross_mark @ '' Database module not found (run enable-database first)''
             | _ \<Rightarrow> cross_mark @ '' Error: '' @ take_chars 50 (str e))),
          (''database_url'', PyStr u), (''database_name'', PyStr n),
          (''connection_status'', PyStr ''Not Connected''),
          (''collections'', PyList [])]"
  using assms by (cases e) (simp_all add: test_database_def test_database_try_def Let_def)

lemma test_database_not_initialized:
  assumes "import_db env = Inr None"
  shows "\<exists>u n. test_database env =
     Inr [(''backend'', PyStr (check_mark @ '' Running'')),
          (''database'', PyStr (warning_sign @ ''  Available but not initialized'')),
          (''database_url'', PyStr u), (''database_name'', PyStr n),
          (''connection_status'', PyStr ''Not Connected''),
          (''collections'', PyList [])]"
  using assms by (simp add: test_database_def test_database_try_def Let_def)

lemma test_database_name_raises:
  assumes "import_db env = Inr (Some db)" and "name db = Some (Inl e)"
  shows "\<exists>u n. test_database env =
     Inr [(''backend'', PyStr (check_mark @ '' Running'')),
          (''database'', PyStr (case e of
               ImportError m \<Rightarrow> cross_mark @ '' Database module not found (run enable-database first)''
             | _ \<Rightarrow> cross_mark @ '' Error: '' @ take_chars 50 (str e))),
          (''database_url'', PyStr u), (''database_name'', PyStr n),
          (''connection_status'', PyStr ''Not Connected''),
          (''collections'', PyList [])]"
  using assms by (cases e) (simp_all add: test_database_def test_database_try_def Let_def)

lemma test_database_listing_fails:
  assumes "import_db env = Inr (Some db)" and "\<And>e. name db \<noteq> Some (Inl e)"
    and "list_collection_names db = Inl e"
  shows "\<exists>u n. test_database env =
     Inr [(''backend'', PyStr (check_mark @ '' Running'')),
          (''database'', PyStr (warning_sign @ ''  Connected but Error: '' @ take_chars 50 (str e))),
          (''database_url'', PyStr u), (''database_name'', PyStr n),
          (''connection_status'', PyStr ''Connected''),
          (''collections'', PyList [])]"
  using assms by (simp add: test_database_def test_database_try_def Let_def split: option.splits sum.splits)

lemma test_database_working:
  assumes "import_db env = Inr (Some db)" and "\<And>e. name db \<noteq> Some (Inl e)"
    and "list_collection_names db = Inr names"
  shows "\<exists>u n. test_database env =
     Inr [(''backend'', PyStr (check_mark @ '' Running'')),
          (''database'', PyStr (check_mark @ '' Connected & Working'')),
          (''database_url'', PyStr u), (''database_name'', PyStr n),
          (''connection_status'', PyStr ''Connected''),
          (''collections'', PyList (map PyStr (take 10 names)))]"
  using assms by (simp add: test_database_def test_database_try_def Let_def split: option.splits sum.splits)


text \<open>
  C9. Whatever the import of the database module, the database object and the environment
  are, \<open>test_database\<close> returns; its response has the six documented fields; the list under
  \<open>collections\<close> holds at most 10 names; and each failure (the module is not found, the
  import or a read of \<open>db.name\<close> raises, \<open>db\<close> is \<open>None\<close>, the listing raises) is the text
  under \<open>database\<close>.
\<close>

theorem test_database_always_returns:
  "\<exists>r cs. test_database env = Inr r
     \<and> map fst r = [''backend'', ''database'', ''database_url'', ''database_name'',
                     ''connection_status'', ''collections'']
     \<and> map_of r ''collections'' = Some (PyList (map PyStr cs)) \<and> length cs \<le> 10
     \<and> map_of r ''database'' = Some (PyStr
          (case import_db env of
             Inl (ImportError m) \<Rightarrow>
               cross_mark @ '' Database module not found (run enable-database first)''
           | Inl e \<Rightarrow> cross_mark @ '' Error: '' @ take_chars 50 (str e)
           | Inr None \<Rightarrow> warning_sign @ ''  Available but not initialized''
           | Inr (Some db) \<Rightarrow>
               (case name db of
                  Some (Inl (ImportError m)) \<Rightarrow>
                    cross_mark @ '' Database module not found (run enable-database first)''
                | Some (Inl e) \<Rightarrow> cross_mark @ '' Error: '' @ take_chars 50 (str e)
                | _ \<Rightarrow>
                    (case list_collection_names db of
                       Inl e \<Rightarrow> warning_sign @ ''  Connected but Error: '' @ take_chars 50 (str e)
                     | Inr names \<Rightarrow> check_mark @ '' Connected & Working''))))"
proof -
  consider (import_fails) e where "import_db env = Inl e"
    | (not_initialized) "import_db env = Inr None"
    | (name_raises) db e where "import_db env = Inr (Some db)" "name db = Some (Inl e)"
    | (listing_fails) db e where "import_db env = Inr (Some db)" "\<And>e. name db \<noteq> Some (Inl e)"
        "list_collection_names db = Inl e"
    | (working) db names where "import_db env = Inr (Some db)" "\<And>e. name db \<noteq> Some (Inl e)"
        "list_collection_names db = Inr names"
  proof (cases "import_db env")
    case (Inl e)
    then show ?thesis by (rule import_fails)
  next
    case (Inr d)
    show ?thesis
    proof (cases d)
      case None
      with Inr show ?thesis by (simp add: not_initialized)
    next
      case (Some db)
      show ?thesis
      proof (cases "\<exists>e. name db = Some (Inl e)")
        case True
        with Inr Some show ?thesis by (auto intro: name_raises)
      next
        case False
        with Inr Some show ?thesis
          by (cases "list_collection_names db") (auto intro: listing_fails working)
      qed
    qed
  qed
  then show ?thesis
  proof cases
    case import_fails
    from test_database_import_fails [OF import_fails] obtain u n where
      "test_database env = Inr [(''backend'', PyStr (check_mark @ '' Running'')),
          (''database'', PyStr (case e of
               ImportError m \<Rightarrow> cross_mark @ '' Database module not found (run enable-database first)''
             | _ \<Rightarrow> cross_mark @ '' Error: '' @ take_chars 50 (str e))),
          (''database_url'', PyStr u), (''database_name'', PyStr n),
          (''connection_status'', PyStr ''Not Connected''),
          (''collections'', PyList [])]" by blast
    with import_fails show ?thesis
      by (simp split: exception.splits)
  next
    case not_initialized
    from test_database_not_initialized [OF not_initialized] obtain u n where
      "test_database env = Inr [(''backend'', PyStr (check_mark @ '' Running'')),
          (''database'', PyStr (warning_sign @ ''  Available but not initialized'')),
          (''database_url'', PyStr u), (''database_name'', PyStr n),
          (''connection_status'', PyStr ''Not Connected''),
          (''collections'', PyList [])]" by blast
    with not_initialized show ?thesis
      by simp
  next
    case name_raises
    from test_database_name_raises [OF name_raises] obtain u n where
      "test_database env = Inr [(''backend'', PyStr (check_mark @ '' Running'')),
          (''database'', PyStr (case e of
               ImportError m \<Rightarrow> cross_mark @ '' Database module not found (run enable-database first)''
             | _ \<Rightarrow> cross_mark @ '' Error: '' @ take_chars 50 (str e))),
          (''database_url'', PyStr u), (''database_name'', PyStr n),
          (''connection_status'', PyStr ''Not Connected''),
          (''collections'', PyList [])]" by blast
    with name_raises show ?thesis
      by (simp split: exception.splits)
  next
    case listing_fails
    from test_database_listing_fails [OF listing_fails] obtain u n where
      "test_database env = Inr [(''backend'', PyStr (check_mark @ '' Running'')),
          (''database'', PyStr (warning_sign @ ''  Connected but Error: '' @ take_chars 50 (str e))),
          (''database_url'', PyStr u), (''database_name'', PyStr n),
          (''connection_status'', PyStr ''Connected''),
          (''collections'', PyList [])]" by blast
    with listing_fails show ?thesis
      by (simp split: option.splits sum.splits)
  next
    case working
    from test_database_working [OF working] obtain u n where eq:
      "test_database env = Inr [(''backend'', PyStr (check_mark @ '' Running'')),
          (''database'', PyStr (check_mark @ '' Connected & Working'')),
          (''database_url'', PyStr u), (''database_name'', PyStr n),
          (''connection_status'', PyStr ''Connected''),
          (''collections'', PyList (map PyStr (take 10 names)))]" by blast
    moreover have "\<exists>cs. map PyStr (take 10 names) = map PyStr cs \<and> length cs \<le> 10"
      by (rule exI [of _ "take 10 names"]) simp
    ultimately show ?thesis
      using working by (simp split: option.splits sum.splits)
  qed
qed

end
